theory Spec2Isabelle
  imports Main "HOL-Library.Word" "HOL-Library.Sublist"
begin

section \<open>JavaScript values used by the program\<close>

text \<open>
  A JavaScript string is a sequence of UTF-16 code units. String literals of the source
  are written \<open>js ''...''\<close>.
\<close>

type_synonym code_unit = "16 word"
type_synonym jsstring = "code_unit list"

definition js :: "string \<Rightarrow> jsstring" where
  "js s = map of_char s"

text \<open>
  \<open>String.prototype.trim\<close> removes leading and trailing WhiteSpace and LineTerminator
  code points (ECMAScript 12.2 and 12.3): TAB, VT, FF, SP, NBSP, ZWNBSP, the category Zs,
  LF, CR, LS and PS. All of them are single code units.
\<close>

definition isWhiteSpace :: "code_unit \<Rightarrow> bool" where
  "isWhiteSpace c \<longleftrightarrow> c \<in> set [0x9, 0xA, 0xB, 0xC, 0xD, 0x20, 0xA0, 0x1680,
     0x2000, 0x2001, 0x2002, 0x2003, 0x2004, 0x2005, 0x2006, 0x2007, 0x2008, 0x2009, 0x200A,
     0x2028, 0x2029, 0x202F, 0x205F, 0x3000, 0xFEFF]"

definition trim :: "jsstring \<Rightarrow> jsstring" where
  "trim s = rev (dropWhile isWhiteSpace (rev (dropWhile isWhiteSpace s)))"

text \<open>
  A property that may be \<open>undefined\<close> is an \<open>option\<close>. The only falsy values that occur
  are \<open>undefined\<close>/\<open>null\<close> and the empty string; \<open>a || b\<close> yields \<open>a\<close> when \<open>a\<close> is truthy
  and \<open>b\<close> otherwise.
\<close>

definition truthy :: "jsstring option \<Rightarrow> bool" where
  "truthy v = (case v of None \<Rightarrow> False | Some s \<Rightarrow> s \<noteq> [])"

definition js_or :: "jsstring option \<Rightarrow> jsstring option \<Rightarrow> jsstring option" where
  "js_or a b = (if truthy a then a else b)"

text \<open>\<open>a || 'literal'\<close>: the right operand is a string, so the result is one.\<close>

definition or_default :: "jsstring option \<Rightarrow> jsstring \<Rightarrow> jsstring" where
  "or_default a d = (case a of None \<Rightarrow> d | Some s \<Rightarrow> if s \<noteq> [] then s else d)"

text \<open>
  Template literals print a non-negative integer below \<open>10^21\<close> in plain decimal digits.
  The numbers printed here are array lengths (below \<open>2^32\<close>) and GitHub issue numbers;
  \<open>decimal\<close> stands for the printed text in that range only (from \<open>10^21\<close> on the
  language prints exponent notation, which is not modelled). It occurs in log messages
  only.
\<close>

definition digit :: "nat \<Rightarrow> code_unit" where
  "digit d = 0x30 + of_nat d"

function decimal :: "nat \<Rightarrow> jsstring" where
  "decimal n = (if n < 10 then [digit n] else decimal (n div 10) @ [digit (n mod 10)])"
  by pat_completeness auto
termination
  by (relation "measure id") auto

declare decimal.simps [simp del]

text \<open>\<open>Array.prototype.join\<close> on an array of strings.\<close>

fun join :: "jsstring \<Rightarrow> jsstring list \<Rightarrow> jsstring" where
  "join sep [] = []"
| "join sep [x] = x"
| "join sep (x # y # ys) = x @ sep @ join sep (y # ys)"

text \<open>
  \<open>${v}\<close> in a template literal, for a string that may be \<open>undefined\<close>.
\<close>

definition template :: "jsstring option \<Rightarrow> jsstring" where
  "template v = (case v of None \<Rightarrow> js ''undefined'' | Some s \<Rightarrow> s)"

text \<open>
  What \<open>parseInt\<close> returns is an integer or \<open>NaN\<close> (\<open>None\<close>). The function itself is a
  built-in of the language and is a parameter of the model.
\<close>

type_synonym jsnumber = "int option"

text \<open>The line break inside a template literal.\<close>

definition nl :: jsstring where
  "nl = [0xA]"

text \<open>Thrown values are \<open>Error\<close> objects; the program reads their \<open>message\<close>.\<close>

datatype error = Error jsstring

fun message :: "error \<Rightarrow> jsstring" where
  "message (Error m) = m"

section \<open>Data model\<close>

text \<open>An entry as the feed parser returns it: every property may be missing.\<close>

record rss_entry =
  raw_title :: "jsstring option"
  raw_category :: "jsstring option"
  raw_link :: "jsstring option"
  raw_description :: "jsstring option"
  raw_content :: "jsstring option"
  raw_guid :: "jsstring option"
  raw_pubDate :: "jsstring option"
  raw_isoDate :: "jsstring option"

text \<open>The object literal built by \<open>fetchRSSItems\<close> for each entry.\<close>

record feed_item =
  title :: jsstring
  category :: jsstring
  link :: jsstring
  description :: jsstring
  guid :: "jsstring option"
  pubDate :: "jsstring option"

text \<open>A GitHub issue object, with the properties the program reads.\<close>

record issue =
  number :: nat
  issue_title :: jsstring
  node_id :: jsstring

record defaults =
  status :: "jsstring option"
  milestone :: "jsstring option"

section \<open>Logger calls and other observable actions\<close>

datatype level = INFO | ERROR | WARN | DEBUG

text \<open>
  The second argument of a \<open>Logger\<close> call, where there is one: the item, the error, or
  the object literal with the configuration (\<open>rssUrl\<close>, \<open>repository\<close>, \<open>project\<close>,
  \<open>dryRun\<close>) or the summary (\<open>totalRSSItems\<close>, \<open>existingIssues\<close>, \<open>newIssuesFound\<close>,
  \<open>issuesCreated\<close>).
\<close>

datatype payload =
    NoData
  | ItemData feed_item
  | ErrorData error
  | ConfigData "jsstring option" jsstring jsnumber bool
  | SummaryData nat nat nat nat

text \<open>Calls that leave the process: the feed parser and the Octokit client.\<close>

datatype request =
    ParseURL "jsstring option"
  | ListForRepo "jsstring option" "jsstring option"
  | IssuesCreate "jsstring option" "jsstring option" jsstring jsstring "jsstring list"
  | IssuesGet "jsstring option" "jsstring option" nat
  | GraphqlGetProject "jsstring option" jsnumber
  | GraphqlAddItem jsstring jsstring

text \<open>
  What a run does is recorded as a list of events, in the order of execution: calls of
  the static \<open>Logger\<close> methods, calls of \<open>sleep\<close> (milliseconds), requests, the calls
  that \<open>IssueService\<close> makes on its gateway object and the calls that
  \<open>addIssueToProject\<close> makes of the two update methods. A method call is recorded with
  the arguments passed, the events that happened inside the call, and for the gateway
  the outcome received (\<open>Inl\<close> for a rejected promise).
\<close>

datatype event =
    Logger level jsstring payload
  | Sleep nat
  | CreateIssue feed_item "event list" "error + issue"
  | AddIssueToProject nat "jsstring option" "jsstring option" "event list" "error + unit"
  | Request request
  | UpdateProjectItemStatus jsstring jsstring jsstring "event list"
  | UpdateProjectItemMilestone jsstring jsstring jsstring "event list"

section \<open>IssueService.findNewIssues\<close>

definition findNewIssues :: "feed_item list \<Rightarrow> issue list \<Rightarrow> feed_item list \<times> event list" where
  "findNewIssues rssItems existingIssues =
     (if length existingIssues = 0 then
        (rssItems,
         [Logger INFO (js ''Comparing RSS items with existing issues'') NoData,
          Logger WARN (js ''No existing issues found. All RSS items will be created as new issues.'') NoData])
      else
        let existingTitles = set (map (\<lambda>issue. trim (issue_title issue)) existingIssues);
            newIssues = filter (\<lambda>item. trim (title item) \<notin> existingTitles) rssItems
        in (newIssues,
            [Logger INFO (js ''Comparing RSS items with existing issues'') NoData,
             Logger INFO (js ''Found '' @ decimal (length newIssues) @ js '' new issues out of ''
                          @ decimal (length rssItems) @ js '' RSS items'') NoData]))"

text \<open>
  Lines 26 to 27 of the method on their own: the title set and the filter, without the
  early return for an empty list of existing issues.
\<close>

definition findNewIssues_general :: "feed_item list \<Rightarrow> issue list \<Rightarrow> feed_item list" where
  "findNewIssues_general rssItems existingIssues =
     (let existingTitles = set (map (\<lambda>issue. trim (issue_title issue)) existingIssues)
      in filter (\<lambda>item. trim (title item) \<notin> existingTitles) rssItems)"

section \<open>IssueService.createNewIssues\<close>

text \<open>
  \<open>this.github\<close>: any object with the two methods (the tests pass a mock, the
  application passes its \<open>GitHubService\<close>). The gateway has a state of its own, of any
  type; a call returns its outcome, the events inside the call and the new state.
\<close>

record 's github =
  createIssue :: "feed_item \<Rightarrow> 's \<Rightarrow> (error + issue) \<times> event list \<times> 's"
  addIssueToProject ::
    "nat \<Rightarrow> jsstring option \<Rightarrow> jsstring option \<Rightarrow> 's \<Rightarrow> (error + unit) \<times> event list \<times> 's"

text \<open>The variables of the loop: the array \<open>createdIssues\<close>, the events so far, the gateway.\<close>

record 's loop_state =
  createdIssues :: "issue list"
  trace :: "event list"
  gateway :: 's

text \<open>
  The \<open>try\<close> block of the loop body (lines 50 to 67). \<open>Inl\<close> is an exception leaving the
  block; \<open>continue\<close> ends the block normally.
\<close>

definition createNewIssues_try ::
  "'s github \<Rightarrow> defaults \<Rightarrow> bool \<Rightarrow> feed_item \<Rightarrow> 's loop_state \<Rightarrow> (error + unit) \<times> 's loop_state" where
  "createNewIssues_try gh dflt dryRun issueData st =
     (if dryRun then
        (Inr (), st\<lparr>trace := trace st @
           [Logger INFO (js ''[DRY RUN] Would create issue: '' @ title issueData) NoData,
            Logger DEBUG (js ''[DRY RUN] Issue data:'') (ItemData issueData)]\<rparr>)
      else
        (case createIssue gh issueData (gateway st) of
           (Inl err, evs, s1) \<Rightarrow>
             (Inl err, st\<lparr>trace := trace st @ [CreateIssue issueData evs (Inl err)], gateway := s1\<rparr>)
         | (Inr iss, evs, s1) \<Rightarrow>
             let st1 = st\<lparr>trace := trace st @ [CreateIssue issueData evs (Inr iss)], gateway := s1\<rparr>;
                 st2 = st1\<lparr>createdIssues := createdIssues st1 @ [iss]\<rparr>
             in (case addIssueToProject gh (number iss) (status dflt) (milestone dflt) (gateway st2) of
                   (Inl err, evs', s2) \<Rightarrow>
                     (Inl err, st2\<lparr>trace := trace st2 @
                        [AddIssueToProject (number iss) (status dflt) (milestone dflt) evs' (Inl err)],
                        gateway := s2\<rparr>)
                 | (Inr u, evs', s2) \<Rightarrow>
                     (Inr (), st2\<lparr>trace := trace st2 @
                        [AddIssueToProject (number iss) (status dflt) (milestone dflt) evs' (Inr ()),
                         Sleep 1000],
                        gateway := s2\<rparr>))))"

text \<open>The loop body: the \<open>try\<close> block with its \<open>catch\<close> clause (lines 49 to 71).\<close>

definition createNewIssues_body ::
  "'s github \<Rightarrow> defaults \<Rightarrow> bool \<Rightarrow> feed_item \<Rightarrow> 's loop_state \<Rightarrow> (error + unit) \<times> 's loop_state" where
  "createNewIssues_body gh dflt dryRun issueData st =
     (case createNewIssues_try gh dflt dryRun issueData st of
        (Inl err, st') \<Rightarrow>
          (Inr (), st'\<lparr>trace := trace st' @
             [Logger ERROR (js ''Failed to create issue: '' @ title issueData) (ErrorData err)]\<rparr>)
      | (Inr u, st') \<Rightarrow> (Inr (), st'))"

text \<open>
  \<open>for (const issueData of newIssues)\<close>: an exception leaving the body would leave the
  loop.
\<close>

fun createNewIssues_loop ::
  "'s github \<Rightarrow> defaults \<Rightarrow> bool \<Rightarrow> feed_item list \<Rightarrow> 's loop_state \<Rightarrow> (error + unit) \<times> 's loop_state" where
  "createNewIssues_loop gh dflt dryRun [] st = (Inr (), st)"
| "createNewIssues_loop gh dflt dryRun (issueData # rest) st =
     (case createNewIssues_body gh dflt dryRun issueData st of
        (Inl err, st') \<Rightarrow> (Inl err, st')
      | (Inr u, st') \<Rightarrow> createNewIssues_loop gh dflt dryRun rest st')"

text \<open>
  The method: \<open>Inl\<close> is a rejected promise, \<open>Inr\<close> the array the promise resolves to. The
  events and the gateway's state are returned with it.
\<close>

definition dryRunPrefix :: "bool \<Rightarrow> jsstring" where
  "dryRunPrefix dryRun = (if dryRun then js ''[DRY RUN] '' else [])"

definition createNewIssues ::
  "'s github \<Rightarrow> feed_item list \<Rightarrow> defaults \<Rightarrow> bool \<Rightarrow> 's \<Rightarrow> (error + issue list) \<times> event list \<times> 's" where
  "createNewIssues gh newIssues dflt dryRun s =
     (if length newIssues = 0 then
        (Inr [], [Logger INFO (js ''No new issues to create'') NoData], s)
      else
        let st0 = \<lparr>createdIssues = [],
                   trace = [Logger INFO (dryRunPrefix dryRun @ js ''Creating ''
                              @ decimal (length newIssues) @ js '' new issues'') NoData],
                   gateway = s\<rparr>
        in (case createNewIssues_loop gh dflt dryRun newIssues st0 of
              (Inl err, st) \<Rightarrow> (Inl err, trace st, gateway st)
            | (Inr u, st) \<Rightarrow>
                (Inr (createdIssues st),
                 trace st @ [Logger INFO (dryRunPrefix dryRun @ js ''Successfully processed ''
                               @ decimal (length (createdIssues st)) @ js '' issues'') NoData],
                 gateway st)))"

section \<open>RSSService.fetchRSSItems\<close>

text \<open>The arrow function mapped over \<open>feed.items\<close> (lines 26 to 33).\<close>

definition fetchRSSItems_item :: "rss_entry \<Rightarrow> feed_item" where
  "fetchRSSItems_item item =
     \<lparr>title = or_default (map_option trim (raw_title item)) (js ''No Title''),
      category = or_default (raw_category item) (js ''General''),
      link = or_default (raw_link item) [],
      description = or_default (js_or (raw_description item) (raw_content item))
                      (js ''No description available''),
      guid = js_or (js_or (raw_guid item) (raw_link item)) (raw_title item),
      pubDate = js_or (raw_pubDate item) (raw_isoDate item)\<rparr>"

text \<open>
  \<open>this.parser.parseURL\<close> is a parameter: it answers with the entries of the feed or
  rejects, and may change the world \<open>'w\<close> outside the process.
\<close>

definition fetchRSSItems ::
  "(jsstring option \<Rightarrow> 'w \<Rightarrow> (error + rss_entry list) \<times> 'w) \<Rightarrow> jsstring option \<Rightarrow> 'w
     \<Rightarrow> (error + feed_item list) \<times> event list \<times> 'w" where
  "fetchRSSItems parseURL url w =
     (case parseURL url w of
        (Inl err, w') \<Rightarrow>
          (Inl (Error (js ''RSS fetch failed: '' @ message err)),
           [Logger INFO (js ''Fetching RSS feed from: '' @ template url) NoData,
            Request (ParseURL url),
            Logger ERROR (js ''Failed to fetch RSS feed'') (ErrorData err)],
           w')
      | (Inr feed_items, w') \<Rightarrow>
          let items = map fetchRSSItems_item feed_items
          in (Inr items,
              [Logger INFO (js ''Fetching RSS feed from: '' @ template url) NoData,
               Request (ParseURL url),
               Logger INFO (js ''Found '' @ decimal (length items) @ js '' RSS items'') NoData],
              w'))"

section \<open>GitHubService\<close>

text \<open>
  The Octokit client, as far as the service calls it. Each call answers or rejects. A
  GraphQL call that answers carries the object asked for (the client rejects a response
  that reports errors).
\<close>

record project =
  project_id :: jsstring

record project_item =
  item_id :: jsstring

record 'w octokit =
  issues_listForRepo :: "jsstring option \<Rightarrow> jsstring option \<Rightarrow> 'w \<Rightarrow> (error + issue list) \<times> 'w"
  issues_create ::
    "jsstring option \<Rightarrow> jsstring option \<Rightarrow> jsstring \<Rightarrow> jsstring \<Rightarrow> jsstring list \<Rightarrow> 'w
       \<Rightarrow> (error + issue) \<times> 'w"
  issues_get :: "jsstring option \<Rightarrow> jsstring option \<Rightarrow> nat \<Rightarrow> 'w \<Rightarrow> (error + issue) \<times> 'w"
  graphql_getProject :: "jsstring option \<Rightarrow> jsnumber \<Rightarrow> 'w \<Rightarrow> (error + project) \<times> 'w"
  graphql_addItem :: "jsstring \<Rightarrow> jsstring \<Rightarrow> 'w \<Rightarrow> (error + project_item) \<times> 'w"

text \<open>The fields of a \<open>GitHubService\<close> object.\<close>

record 'w GitHubService =
  octokit :: "'w octokit"
  owner :: "jsstring option"
  repo :: "jsstring option"
  projectNumber :: jsnumber

definition getExistingIssues ::
  "'w GitHubService \<Rightarrow> 'w \<Rightarrow> (error + issue list) \<times> event list \<times> 'w" where
  "getExistingIssues this w =
     (case issues_listForRepo (octokit this) (owner this) (repo this) w of
        (Inl err, w') \<Rightarrow>
          (Inl (Error (js ''GitHub API error: '' @ message err)),
           [Logger INFO (js ''Fetching existing issues from repository'') NoData,
            Request (ListForRepo (owner this) (repo this)),
            Logger ERROR (js ''Failed to fetch existing issues'') (ErrorData err)],
           w')
      | (Inr issues, w') \<Rightarrow>
          (Inr issues,
           [Logger INFO (js ''Fetching existing issues from repository'') NoData,
            Request (ListForRepo (owner this) (repo this)),
            Logger INFO (js ''Found '' @ decimal (length issues) @ js '' existing issues'') NoData],
           w'))"

definition formatIssueBody :: "feed_item \<Rightarrow> jsstring" where
  "formatIssueBody data =
     js ''## '' @ title data @ nl @ nl
     @ js ''**Category:** '' @ category data @ nl
     @ js ''**Source:** '' @ link data @ nl @ nl
     @ js ''### Description'' @ nl
     @ description data @ nl @ nl
     @ js ''---'' @ nl
     @ js ''*Auto-generated from RSS feed*''"

definition GitHubService_createIssue ::
  "'w GitHubService \<Rightarrow> feed_item \<Rightarrow> 'w \<Rightarrow> (error + issue) \<times> event list \<times> 'w" where
  "GitHubService_createIssue this issueData w =
     (let body = formatIssueBody issueData;
          labels = (if category issueData \<noteq> [] then [category issueData] else [])
      in case issues_create (octokit this) (owner this) (repo this) (title issueData) body labels w of
           (Inl err, w') \<Rightarrow>
             (Inl (Error (js ''Issue creation failed: '' @ message err)),
              [Logger INFO (js ''Creating issue: '' @ title issueData) NoData,
               Request (IssuesCreate (owner this) (repo this) (title issueData) body labels),
               Logger ERROR (js ''Failed to create issue: '' @ title issueData) (ErrorData err)],
              w')
         | (Inr iss, w') \<Rightarrow>
             (Inr iss,
              [Logger INFO (js ''Creating issue: '' @ title issueData) NoData,
               Request (IssuesCreate (owner this) (repo this) (title issueData) body labels),
               Logger INFO (js ''Created issue #'' @ decimal (number iss) @ js '': '' @ issue_title iss)
                 NoData],
              w'))"

definition getProject :: "'w GitHubService \<Rightarrow> 'w \<Rightarrow> (error + project) \<times> event list \<times> 'w" where
  "getProject this w =
     (case graphql_getProject (octokit this) (owner this) (projectNumber this) w of
        (r, w') \<Rightarrow> (r, [Request (GraphqlGetProject (owner this) (projectNumber this))], w'))"

definition addItemToProject ::
  "'w GitHubService \<Rightarrow> jsstring \<Rightarrow> nat \<Rightarrow> 'w \<Rightarrow> (error + project_item) \<times> event list \<times> 'w" where
  "addItemToProject this projectId issueNumber w =
     (case issues_get (octokit this) (owner this) (repo this) issueNumber w of
        (Inl err, w1) \<Rightarrow> (Inl err, [Request (IssuesGet (owner this) (repo this) issueNumber)], w1)
      | (Inr iss, w1) \<Rightarrow>
          (case graphql_addItem (octokit this) projectId (node_id iss) w1 of
             (r, w2) \<Rightarrow>
               (r, [Request (IssuesGet (owner this) (repo this) issueNumber),
                    Request (GraphqlAddItem projectId (node_id iss))], w2)))"

text \<open>The two update methods only log; their promises always resolve.\<close>

definition updateProjectItemStatus :: "jsstring \<Rightarrow> jsstring \<Rightarrow> jsstring \<Rightarrow> event list" where
  "updateProjectItemStatus projectId itemId statusValue =
     [Logger INFO (js ''Updating project item status to: '' @ statusValue) NoData]"

definition updateProjectItemMilestone :: "jsstring \<Rightarrow> jsstring \<Rightarrow> jsstring \<Rightarrow> event list" where
  "updateProjectItemMilestone projectId itemId milestoneValue =
     [Logger INFO (js ''Updating project item milestone to: '' @ milestoneValue) NoData]"

text \<open>\<open>if (v) { await update(projectId, itemId, v) }\<close> for the two optional values.\<close>

definition statusUpdate :: "jsstring \<Rightarrow> jsstring \<Rightarrow> jsstring option \<Rightarrow> event list" where
  "statusUpdate projectId itemId statusArg =
     (case statusArg of
        None \<Rightarrow> []
      | Some s \<Rightarrow>
          if s \<noteq> [] then
            [UpdateProjectItemStatus projectId itemId s (updateProjectItemStatus projectId itemId s)]
          else [])"

definition milestoneUpdate :: "jsstring \<Rightarrow> jsstring \<Rightarrow> jsstring option \<Rightarrow> event list" where
  "milestoneUpdate projectId itemId milestoneArg =
     (case milestoneArg of
        None \<Rightarrow> []
      | Some m \<Rightarrow>
          if m \<noteq> [] then
            [UpdateProjectItemMilestone projectId itemId m (updateProjectItemMilestone projectId itemId m)]
          else [])"

text \<open>The \<open>try\<close> block of \<open>addIssueToProject\<close> (lines 91 to 108).\<close>

definition addIssueToProject_try ::
  "'w GitHubService \<Rightarrow> nat \<Rightarrow> jsstring option \<Rightarrow> jsstring option \<Rightarrow> 'w
     \<Rightarrow> (error + unit) \<times> event list \<times> 'w" where
  "addIssueToProject_try this issueNumber statusArg milestoneArg w =
     (let evs0 = [Logger INFO (js ''Adding issue #'' @ decimal issueNumber @ js '' to project board'')
                    NoData]
      in case getProject this w of
           (Inl err, evs1, w1) \<Rightarrow> (Inl err, evs0 @ evs1, w1)
         | (Inr proj, evs1, w1) \<Rightarrow>
             (case addItemToProject this (project_id proj) issueNumber w1 of
                (Inl err, evs2, w2) \<Rightarrow> (Inl err, evs0 @ evs1 @ evs2, w2)
              | (Inr projectItem, evs2, w2) \<Rightarrow>
                  (Inr (),
                   evs0 @ evs1 @ evs2
                   @ statusUpdate (project_id proj) (item_id projectItem) statusArg
                   @ milestoneUpdate (project_id proj) (item_id projectItem) milestoneArg
                   @ [Logger INFO (js ''Successfully added issue #'' @ decimal issueNumber
                                   @ js '' to project board'') NoData],
                   w2)))"

text \<open>The method: the \<open>catch\<close> clause logs and throws the error again.\<close>

definition GitHubService_addIssueToProject ::
  "'w GitHubService \<Rightarrow> nat \<Rightarrow> jsstring option \<Rightarrow> jsstring option \<Rightarrow> 'w
     \<Rightarrow> (error + unit) \<times> event list \<times> 'w" where
  "GitHubService_addIssueToProject this issueNumber statusArg milestoneArg w =
     (case addIssueToProject_try this issueNumber statusArg milestoneArg w of
        (Inl err, evs, w') \<Rightarrow>
          (Inl err,
           evs @ [Logger ERROR (js ''Failed to add issue #'' @ decimal issueNumber @ js '' to project'')
                    (ErrorData err)],
           w')
      | (Inr u, evs, w') \<Rightarrow> (Inr (), evs, w'))"

text \<open>A \<open>GitHubService\<close> object seen through the two methods that \<open>IssueService\<close> calls.\<close>

definition asGateway :: "'w GitHubService \<Rightarrow> 'w github" where
  "asGateway this =
     \<lparr>createIssue = GitHubService_createIssue this,
      addIssueToProject = GitHubService_addIssueToProject this\<rparr>"

section \<open>Config\<close>

text \<open>
  \<open>process.env\<close> maps names to strings (after \<open>dotenv.config()\<close> has added the
  variables of a local \<open>.env\<close> file); \<open>process.argv\<close> is an array of strings.
\<close>

type_synonym env = "jsstring \<rightharpoonup> jsstring"

definition required :: "jsstring list" where
  "required = [js ''GITHUB_TOKEN'', js ''GITHUB_OWNER'', js ''GITHUB_REPO'',
               js ''PROJECT_NUMBER'', js ''MANTIS_RSS_URL'']"

text \<open>The constant \<open>missing\<close> of \<open>validateRequiredEnvVars\<close> (line 31).\<close>

definition missing :: "env \<Rightarrow> jsstring list" where
  "missing process_env = filter (\<lambda>key. \<not> truthy (process_env key)) required"

definition validateRequiredEnvVars :: "env \<Rightarrow> error + unit" where
  "validateRequiredEnvVars process_env =
     (if length (missing process_env) > 0 then
        Inl (Error (js ''Missing required environment variables: ''
                    @ join (js '', '') (missing process_env)))
      else Inr ())"

record config =
  github_token :: "jsstring option"
  github_owner :: "jsstring option"
  github_repo :: "jsstring option"
  github_projectNumber :: jsnumber
  rss_url :: "jsstring option"
  config_defaults :: defaults
  config_dryRun :: bool

text \<open>The constructor; \<open>Inl\<close> is the exception thrown by the validation.\<close>

definition Config_new ::
  "(jsstring option \<Rightarrow> jsnumber) \<Rightarrow> env \<Rightarrow> jsstring list \<Rightarrow> error + config" where
  "Config_new parseInt10 process_env process_argv =
     (case validateRequiredEnvVars process_env of
        Inl err \<Rightarrow> Inl err
      | Inr u \<Rightarrow>
          Inr \<lparr>github_token = process_env (js ''GITHUB_TOKEN''),
               github_owner = process_env (js ''GITHUB_OWNER''),
               github_repo = process_env (js ''GITHUB_REPO''),
               github_projectNumber = parseInt10 (process_env (js ''PROJECT_NUMBER'')),
               rss_url = process_env (js ''MANTIS_RSS_URL''),
               config_defaults =
                 \<lparr>status = Some (or_default (process_env (js ''DEFAULT_STATUS'')) (js ''Todo'')),
                  milestone = js_or (process_env (js ''DEFAULT_MILESTONE'')) None\<rparr>,
               config_dryRun =
                 (process_env (js ''DRY_RUN'') = Some (js ''true'')
                  \<or> js ''--dry-run'' \<in> set process_argv)\<rparr>)"

section \<open>The application\<close>

text \<open>
  How the process ends: with an exit status, or with an exception that nothing catches.
\<close>

datatype ending = Exit nat | Uncaught error

text \<open>The constructor of \<open>GitHubService\<close>; \<open>new Octokit({auth})\<close> is a parameter.\<close>

definition GitHubService_new :: "(jsstring option \<Rightarrow> 'w octokit) \<Rightarrow> config \<Rightarrow> 'w GitHubService" where
  "GitHubService_new Octokit cfg =
     \<lparr>octokit = Octokit (github_token cfg),
      owner = github_owner cfg,
      repo = github_repo cfg,
      projectNumber = github_projectNumber cfg\<rparr>"

text \<open>
  \<open>RSSToIssueApp.run\<close>: every exception is caught, logged, and ends the process with
  status 1.
\<close>

definition failed :: "event list \<Rightarrow> error \<Rightarrow> 'w \<Rightarrow> ending \<times> event list \<times> 'w" where
  "failed evs err w = (Exit 1, evs @ [Logger ERROR (js ''Application failed'') (ErrorData err)], w)"

definition run ::
  "(jsstring option \<Rightarrow> 'w \<Rightarrow> (error + rss_entry list) \<times> 'w) \<Rightarrow> 'w GitHubService \<Rightarrow> config \<Rightarrow> 'w
     \<Rightarrow> ending \<times> event list \<times> 'w" where
  "run parseURL githubService cfg w =
     (let evs0 =
        [Logger INFO (js ''Starting RSS to Issue automation ''
                      @ (if config_dryRun cfg then js ''(DRY RUN MODE)'' else [])) NoData,
         Logger INFO (js ''Configuration:'')
           (ConfigData (rss_url cfg)
              (template (github_owner cfg) @ js ''/'' @ template (github_repo cfg))
              (github_projectNumber cfg) (config_dryRun cfg))]
      in case fetchRSSItems parseURL (rss_url cfg) w of
           (Inl err, evs1, w1) \<Rightarrow> failed (evs0 @ evs1) err w1
         | (Inr rssItems, evs1, w1) \<Rightarrow>
             (case getExistingIssues githubService w1 of
                (Inl err, evs2, w2) \<Rightarrow> failed (evs0 @ evs1 @ evs2) err w2
              | (Inr existingIssues, evs2, w2) \<Rightarrow>
                  (case findNewIssues rssItems existingIssues of
                     (newIssues, evs3) \<Rightarrow>
                       (case createNewIssues (asGateway githubService) newIssues
                               (config_defaults cfg) (config_dryRun cfg) w2 of
                          (Inl err, evs4, w3) \<Rightarrow> failed (evs0 @ evs1 @ evs2 @ evs3 @ evs4) err w3
                        | (Inr createdList, evs4, w3) \<Rightarrow>
                            (Exit 0,
                             evs0 @ evs1 @ evs2 @ evs3 @ evs4
                             @ [Logger INFO (js ''Automation completed successfully'') NoData,
                                Logger INFO (js ''Summary:'')
                                  (SummaryData (length rssItems) (length existingIssues)
                                     (length newIssues) (length createdList))],
                             w3)))))"

text \<open>
  The script: loading the module \<open>config\<close> constructs the configuration (the first
  statement of \<open>index.js\<close>); then the application object is built and run.
\<close>

definition main ::
  "(jsstring option \<Rightarrow> jsnumber) \<Rightarrow> (jsstring option \<Rightarrow> 'w \<Rightarrow> (error + rss_entry list) \<times> 'w)
     \<Rightarrow> (jsstring option \<Rightarrow> 'w octokit) \<Rightarrow> env \<Rightarrow> jsstring list \<Rightarrow> 'w \<Rightarrow> ending \<times> event list \<times> 'w" where
  "main parseInt10 parseURL Octokit process_env process_argv w =
     (case Config_new parseInt10 process_env process_argv of
        Inl err \<Rightarrow> (Uncaught err, [], w)
      | Inr cfg \<Rightarrow> run parseURL (GitHubService_new Octokit cfg) cfg w)"

section \<open>Reading a list of events\<close>

text \<open>
  What a list of events says about the gateway: the issues of the successful
  \<open>createIssue\<close> calls, the items passed to \<open>createIssue\<close>, the issue numbers passed to
  \<open>addIssueToProject\<close>, the errors of the failed gateway calls, the errors passed to
  \<open>Logger.error\<close>, and the values passed to the two update methods of \<open>GitHubService\<close>.
\<close>

fun created_of :: "event \<Rightarrow> issue list" where
  "created_of (CreateIssue x evs (Inr iss)) = [iss]"
| "created_of ev = []"

fun attempted_of :: "event \<Rightarrow> feed_item list" where
  "attempted_of (CreateIssue x evs r) = [x]"
| "attempted_of ev = []"

fun failures_of :: "event \<Rightarrow> error list" where
  "failures_of (CreateIssue x evs (Inl err)) = [err]"
| "failures_of (AddIssueToProject n a b evs (Inl err)) = [err]"
| "failures_of ev = []"

fun error_logs_of :: "event \<Rightarrow> error list" where
  "error_logs_of (Logger ERROR m (ErrorData err)) = [err]"
| "error_logs_of ev = []"

fun attached_of :: "event \<Rightarrow> nat list" where
  "attached_of (AddIssueToProject n a b evs r) = [n]"
| "attached_of ev = []"

fun status_updates_of :: "event \<Rightarrow> jsstring list" where
  "status_updates_of (UpdateProjectItemStatus p i v evs) = [v]"
| "status_updates_of ev = []"

fun milestone_updates_of :: "event \<Rightarrow> jsstring list" where
  "milestone_updates_of (UpdateProjectItemMilestone p i v evs) = [v]"
| "milestone_updates_of ev = []"

fun isGatewayCall :: "event \<Rightarrow> bool" where
  "isGatewayCall (CreateIssue x evs r) = True"
| "isGatewayCall (AddIssueToProject n a b evs r) = True"
| "isGatewayCall ev = False"

text \<open>
  The events of one item and of a list of items outside dry-run mode, written down
  directly: \<open>createIssue\<close>, then \<open>addIssueToProject\<close> if there is an issue, then the
  pause if both succeeded, and the error log after a failure. The gateway's state goes
  from each call to the next.
\<close>

definition failure_log :: "feed_item \<Rightarrow> error \<Rightarrow> event" where
  "failure_log x err = Logger ERROR (js ''Failed to create issue: '' @ title x) (ErrorData err)"

definition item_events :: "'s github \<Rightarrow> defaults \<Rightarrow> feed_item \<Rightarrow> 's \<Rightarrow> event list \<times> 's" where
  "item_events gh dflt x s =
     (case createIssue gh x s of
        (Inl err, evs, s1) \<Rightarrow> ([CreateIssue x evs (Inl err), failure_log x err], s1)
      | (Inr iss, evs, s1) \<Rightarrow>
          (case addIssueToProject gh (number iss) (status dflt) (milestone dflt) s1 of
             (Inl err, evs', s2) \<Rightarrow>
               ([CreateIssue x evs (Inr iss),
                 AddIssueToProject (number iss) (status dflt) (milestone dflt) evs' (Inl err),
                 failure_log x err], s2)
           | (Inr u, evs', s2) \<Rightarrow>
               ([CreateIssue x evs (Inr iss),
                 AddIssueToProject (number iss) (status dflt) (milestone dflt) evs' (Inr ()),
                 Sleep 1000], s2)))"

fun sequential_events :: "'s github \<Rightarrow> defaults \<Rightarrow> feed_item list \<Rightarrow> 's \<Rightarrow> event list \<times> 's" where
  "sequential_events gh dflt [] s = ([], s)"
| "sequential_events gh dflt (x # xs) s =
     (case item_events gh dflt x s of
        (evs, s1) \<Rightarrow> (case sequential_events gh dflt xs s1 of (evs', s2) \<Rightarrow> (evs @ evs', s2)))"

definition creating_log :: "bool \<Rightarrow> nat \<Rightarrow> event" where
  "creating_log dryRun n =
     Logger INFO (dryRunPrefix dryRun @ js ''Creating '' @ decimal n @ js '' new issues'') NoData"

definition processed_log :: "bool \<Rightarrow> nat \<Rightarrow> event" where
  "processed_log dryRun n =
     Logger INFO (dryRunPrefix dryRun @ js ''Successfully processed '' @ decimal n @ js '' issues'') NoData"

definition dry_events :: "feed_item \<Rightarrow> event list" where
  "dry_events x =
     [Logger INFO (js ''[DRY RUN] Would create issue: '' @ title x) NoData,
      Logger DEBUG (js ''[DRY RUN] Issue data:'') (ItemData x)]"

section \<open>Test doubles\<close>

definition mockIssue :: "nat \<Rightarrow> feed_item \<Rightarrow> issue" where
  "mockIssue n x = \<lparr>number = n, issue_title = title x, node_id = []\<rparr>"

text \<open>
  A gateway in the manner of the mocks of the test suite. Its state counts the calls of
  \<open>createIssue\<close>; the k-th call fails if k is in \<open>failCreate\<close> and creates issue number k
  otherwise; attaching issue number k fails if k is in \<open>failAttach\<close>.
\<close>

definition mockGithubService :: "nat list \<Rightarrow> nat list \<Rightarrow> nat github" where
  "mockGithubService failCreate failAttach =
     \<lparr>createIssue = (\<lambda>x k.
        if Suc k \<in> set failCreate then (Inl (Error (js ''store error'')), [], Suc k)
        else (Inr (mockIssue (Suc k) x), [], Suc k)),
      addIssueToProject = (\<lambda>n a b k.
        if n \<in> set failAttach then (Inl (Error (js ''board error'')), [], k)
        else (Inr (), [], k))\<rparr>"

definition testItem :: "string \<Rightarrow> feed_item" where
  "testItem t = \<lparr>title = js t, category = js ''Bug'', link = [], description = js ''text'',
                 guid = Some (js t), pubDate = None\<rparr>"

definition testDefaults :: defaults where
  "testDefaults = \<lparr>status = Some (js ''Todo''), milestone = Some (js ''v1.0'')\<rparr>"

definition existingIssue :: "nat \<Rightarrow> string \<Rightarrow> issue" where
  "existingIssue n t = \<lparr>number = n, issue_title = js t, node_id = []\<rparr>"

text \<open>A feed entry that has a title and nothing else.\<close>

definition onlyTitle :: "jsstring \<Rightarrow> rss_entry" where
  "onlyTitle t = \<lparr>raw_title = Some t, raw_category = None, raw_link = None,
                  raw_description = None, raw_content = None, raw_guid = None,
                  raw_pubDate = None, raw_isoDate = None\<rparr>"

text \<open>
  An Octokit client whose calls all answer, except that the project is not found when
  \<open>projectFound\<close> is false. Its world counts the requests.
\<close>

definition mockOctokit :: "bool \<Rightarrow> nat octokit" where
  "mockOctokit projectFound =
     \<lparr>issues_listForRepo = (\<lambda>ow rp w. (Inr [], Suc w)),
      issues_create = (\<lambda>ow rp t b ls w.
        (Inr \<lparr>number = Suc w, issue_title = t, node_id = js ''I_1''\<rparr>, Suc w)),
      issues_get = (\<lambda>ow rp n w.
        (Inr \<lparr>number = n, issue_title = js ''T'', node_id = js ''I_1''\<rparr>, Suc w)),
      graphql_getProject = (\<lambda>ow n w.
        if projectFound then (Inr \<lparr>project_id = js ''P_1''\<rparr>, Suc w)
        else (Inl (Error (js ''Could not resolve to a ProjectV2'')), Suc w)),
      graphql_addItem = (\<lambda>p c w. (Inr \<lparr>item_id = js ''PI_1''\<rparr>, Suc w))\<rparr>"

definition mockService :: "bool \<Rightarrow> nat GitHubService" where
  "mockService projectFound =
     \<lparr>octokit = mockOctokit projectFound, owner = Some (js ''test-owner''),
      repo = Some (js ''test-repo''), projectNumber = Some 1\<rparr>"

definition mockParseURL :: "jsstring option \<Rightarrow> nat \<Rightarrow> (error + rss_entry list) \<times> nat" where
  "mockParseURL url w = (Inr [], Suc w)"

text \<open>The environment of the integration test, and one with required values missing.\<close>

definition testEnv :: env where
  "testEnv = map_of
     [(js ''GITHUB_TOKEN'', js ''test-token''),
      (js ''GITHUB_OWNER'', js ''test-owner''),
      (js ''GITHUB_REPO'', js ''test-repo''),
      (js ''PROJECT_NUMBER'', js ''1''),
      (js ''MANTIS_RSS_URL'', js ''https://example.com/rss.xml''),
      (js ''DRY_RUN'', js ''true'')]"

definition incompleteEnv :: env where
  "incompleteEnv = map_of
     [(js ''GITHUB_TOKEN'', js ''test-token''),
      (js ''GITHUB_REPO'', []),
      (js ''PROJECT_NUMBER'', js ''1'')]"

section \<open>Properties of trim\<close>

lemma trim_Nil [simp]: "trim [] = []"
  by (simp add: trim_def)

text \<open>\<open>trim\<close> removes only white space, and only from the two ends.\<close>

lemma trim_decomp:
  "\<exists>a b. t = a @ trim t @ b \<and> list_all isWhiteSpace a \<and> list_all isWhiteSpace b"
proof -
  let ?u = "dropWhile isWhiteSpace t"
  have t: "t = takeWhile isWhiteSpace t @ ?u" by simp
  have "rev (rev ?u) = rev (takeWhile isWhiteSpace (rev ?u) @ dropWhile isWhiteSpace (rev ?u))"
    by (simp only: takeWhile_dropWhile_id)
  then have u: "?u = trim t @ rev (takeWhile isWhiteSpace (rev ?u))"
    by (simp only: rev_rev_ident rev_append trim_def)
  have a: "list_all isWhiteSpace (takeWhile isWhiteSpace t)"
    by (simp add: list_all_iff) (meson set_takeWhileD)
  have b: "list_all isWhiteSpace (rev (takeWhile isWhiteSpace (rev ?u)))"
    by (simp add: list_all_iff) (meson set_takeWhileD)
  from t u have "t = takeWhile isWhiteSpace t @ trim t @ rev (takeWhile isWhiteSpace (rev ?u))"
    by simp
  with a b show ?thesis by blast
qed

text \<open>What is left neither starts nor ends with white space.\<close>

lemma trim_ends:
  assumes "trim t \<noteq> []"
  shows "\<not> isWhiteSpace (hd (trim t)) \<and> \<not> isWhiteSpace (last (trim t))"
proof -
  let ?u = "dropWhile isWhiteSpace t"
  let ?v = "dropWhile isWhiteSpace (rev ?u)"
  from assms have v: "?v \<noteq> []" by (simp add: trim_def)
  then have "\<not> isWhiteSpace (hd ?v)" by (rule hd_dropWhile)
  then have l: "\<not> isWhiteSpace (last (trim t))"
    using v by (simp add: trim_def last_rev)
  have "dropWhile isWhiteSpace (rev xs) \<noteq> [] \<Longrightarrow> xs \<noteq> []" for xs
    by auto
  from this [OF v] have u: "?u \<noteq> []" .
  then have hu: "\<not> isWhiteSpace (hd ?u)" by (rule hd_dropWhile)
  have "rev (rev ?u) = rev (takeWhile isWhiteSpace (rev ?u) @ ?v)"
    by (simp only: takeWhile_dropWhile_id)
  then have "?u = trim t @ rev (takeWhile isWhiteSpace (rev ?u))"
    by (simp only: rev_rev_ident rev_append trim_def)
  with assms have "hd ?u = hd (trim t)" by (metis hd_append2)
  with hu l show ?thesis by simp
qed

lemma trim_Foo: "trim (js ''  Foo  '') = js ''Foo''" "trim (js ''Foo'') = js ''Foo''"
  by (simp_all add: trim_def js_def isWhiteSpace_def)

section \<open>Finding the new items\<close>

lemma fst_findNewIssues:
  "fst (findNewIssues rssItems existingIssues) = findNewIssues_general rssItems existingIssues"
  by (cases existingIssues) (simp_all add: findNewIssues_def findNewIssues_general_def Let_def)

lemma count_list_filter_if:
  "count_list (filter P xs) x = (if P x then count_list xs x else 0)"
  by (induction xs) auto

text \<open>
  C2: for every list of feed items and every non-empty list of existing issues,
  \<open>findNewIssues\<close> returns exactly the feed items whose trimmed title is not among the
  trimmed titles of the existing issues. The order of the feed items is kept (the
  result is the filtered list, a subsequence of the input), and feed items are not
  de-duplicated among themselves: an item that matches no existing issue occurs in the
  result as often as in the input. In particular an item titled \<open>"  Foo  "\<close> is
  excluded when an existing issue is titled \<open>"Foo"\<close>.
\<close>

theorem findNewIssues_filters_by_trimmed_title:
  assumes "existingIssues \<noteq> []"
  shows "fst (findNewIssues rssItems existingIssues)
           = filter (\<lambda>item. trim (title item) \<notin> trim ` issue_title ` set existingIssues) rssItems
         \<and> subseq (fst (findNewIssues rssItems existingIssues)) rssItems
         \<and> count_list (fst (findNewIssues rssItems existingIssues)) x
             = (if trim (title x) \<in> trim ` issue_title ` set existingIssues then 0
                else count_list rssItems x)
         \<and> (title x = js ''  Foo  '' \<and> js ''Foo'' \<in> issue_title ` set existingIssues
               \<longrightarrow> x \<notin> set (fst (findNewIssues rssItems existingIssues)))"
proof -
  have eq: "fst (findNewIssues rssItems existingIssues)
           = filter (\<lambda>item. trim (title item) \<notin> trim ` issue_title ` set existingIssues) rssItems"
    using assms by (simp add: findNewIssues_def Let_def image_image)
  have foo: "title x = js ''  Foo  '' \<and> js ''Foo'' \<in> issue_title ` set existingIssues
               \<longrightarrow> trim (title x) \<in> trim ` issue_title ` set existingIssues"
    using trim_Foo by (metis image_eqI)
  show ?thesis
    using foo by (simp add: eq count_list_filter_if)
qed

text \<open>
  An item titled \<open>"  Foo  "\<close> against an existing issue \<open>"Foo"\<close>, and two items that
  share the title \<open>"New"\<close> and differ in their category.
\<close>

theorem findNewIssues_filters_by_trimmed_title_witness:
  "[existingIssue 1 ''Foo''] \<noteq> []
   \<and> fst (findNewIssues
            [testItem ''  Foo  '', testItem ''New'', testItem ''Other'',
             (testItem ''New'')\<lparr>category := js ''Feature''\<rparr>]
            [existingIssue 1 ''Foo''])
     = [testItem ''New'', testItem ''Other'', (testItem ''New'')\<lparr>category := js ''Feature''\<rparr>]"
  using findNewIssues_filters_by_trimmed_title
          [where existingIssues = "[existingIssue 1 ''Foo'']"
             and rssItems = "[testItem ''  Foo  '', testItem ''New'', testItem ''Other'',
                              (testItem ''New'')\<lparr>category := js ''Feature''\<rparr>]"
             and x = "testItem ''  Foo  ''"]
  by (simp add: testItem_def existingIssue_def trim_def js_def isWhiteSpace_def)

text \<open>
  C7: the early return of \<open>findNewIssues\<close> for an empty list of existing issues gives
  what the general algorithm (the set of trimmed titles and the filter) gives for it:
  \<open>findNewIssues X []\<close> returns \<open>X\<close>, the general algorithm run against no existing
  issue returns \<open>X\<close> too, and the method agrees with the general algorithm on every
  input. For an empty list of feed items the result is empty, whatever the existing
  issues are.
\<close>

theorem findNewIssues_short_circuit_equivalent:
  "fst (findNewIssues X []) = X
   \<and> findNewIssues_general X [] = X
   \<and> fst (findNewIssues X E) = findNewIssues_general X E
   \<and> fst (findNewIssues [] Y) = []"
  by (simp add: fst_findNewIssues) (simp add: findNewIssues_general_def)

theorem findNewIssues_short_circuit_equivalent_witness:
  "fst (findNewIssues [testItem ''Test Item 1'', testItem ''Test Item 2''] [])
     = [testItem ''Test Item 1'', testItem ''Test Item 2'']
   \<and> fst (findNewIssues [] [existingIssue 1 ''Existing Item'']) = []
   \<and> findNewIssues_general [testItem ''Existing Item'', testItem ''New Item'']
        [existingIssue 1 ''Existing Item'']
     = [testItem ''New Item'']"
  using findNewIssues_short_circuit_equivalent
          [where X = "[testItem ''Test Item 1'', testItem ''Test Item 2'']"
             and Y = "[existingIssue 1 ''Existing Item'']" and E = "[]"]
  by (simp add: findNewIssues_general_def testItem_def existingIssue_def trim_def js_def
      isWhiteSpace_def)

section \<open>Normalizing feed entries\<close>

lemma No_Title_nonempty: "js ''No Title'' \<noteq> []"
  by (simp add: js_def)

lemma title_item:
  "title (fetchRSSItems_item e) =
     (case raw_title e of None \<Rightarrow> js ''No Title''
      | Some t \<Rightarrow> if trim t = [] then js ''No Title'' else trim t)"
  by (simp add: fetchRSSItems_item_def or_default_def split: option.splits)

lemma fst_fetchRSSItems:
  "fst (fetchRSSItems parseURL url w) =
     (case fst (parseURL url w) of
        Inl err \<Rightarrow> Inl (Error (js ''RSS fetch failed: '' @ message err))
      | Inr entries \<Rightarrow> Inr (map fetchRSSItems_item entries))"
  by (simp add: fetchRSSItems_def Let_def split: prod.splits sum.splits)

text \<open>
  C6: for every feed entry, the guid of the normalized item follows the order native
  guid, else link, else title: it is the entry's guid when that is present, otherwise
  the entry's link when that is present, otherwise the entry's title (as the entry has
  it, untrimmed). Present means truthy, as \<open>||\<close> has it: a property that is missing or
  the empty string is not present. In particular an entry that has only a title gets
  that title as guid. The items that \<open>fetchRSSItems\<close> returns are the entries of the
  parsed feed normalized in this way, in their order.
\<close>

theorem guid_fallback_order:
  "guid (fetchRSSItems_item e) =
     (if truthy (raw_guid e) then raw_guid e
      else if truthy (raw_link e) then raw_link e
      else raw_title e)
   \<and> guid (fetchRSSItems_item (onlyTitle t)) = Some t
   \<and> fst (fetchRSSItems parseURL url w) =
       (case fst (parseURL url w) of
          Inl err \<Rightarrow> Inl (Error (js ''RSS fetch failed: '' @ message err))
        | Inr entries \<Rightarrow> Inr (map fetchRSSItems_item entries))"
  by (simp add: fst_fetchRSSItems fetchRSSItems_item_def js_or_def truthy_def onlyTitle_def)

theorem guid_fallback_order_witness:
  "fetchRSSItems_item (onlyTitle (js ''Test Item''))
     = \<lparr>title = js ''Test Item'', category = js ''General'', link = [],
        description = js ''No description available'', guid = Some (js ''Test Item''),
        pubDate = None\<rparr>
   \<and> guid (fetchRSSItems_item
            ((onlyTitle (js ''T''))\<lparr>raw_link := Some (js ''https://example.com/1'')\<rparr>))
     = Some (js ''https://example.com/1'')
   \<and> guid (fetchRSSItems_item
            ((onlyTitle (js ''T''))\<lparr>raw_link := Some (js ''https://example.com/1''),
                                    raw_guid := Some (js ''item-1'')\<rparr>))
     = Some (js ''item-1'')"
  using guid_fallback_order [where e = "onlyTitle (js ''Test Item'')" and t = "js ''Test Item''"]
  by (simp add: fetchRSSItems_item_def onlyTitle_def or_default_def js_or_def truthy_def
      trim_def isWhiteSpace_def js_def)

text \<open>
  C8: for every feed entry the title of the normalized item is not empty: it is the
  source title with the surrounding white space trimmed, and it is \<open>"No Title"\<close>
  whenever the source title is absent or trims to the empty string. Trimming a title
  \<open>t\<close> takes white space away from its two ends and nothing else, and what is left
  neither starts nor ends with white space. Every item that \<open>fetchRSSItems\<close> returns
  has a title that is not empty.
\<close>

theorem normalized_title_nonempty:
  "title (fetchRSSItems_item e) \<noteq> []
   \<and> title (fetchRSSItems_item e) =
       (case raw_title e of None \<Rightarrow> js ''No Title''
        | Some t \<Rightarrow> if trim t = [] then js ''No Title'' else trim t)
   \<and> (\<exists>a b. t = a @ trim t @ b \<and> list_all isWhiteSpace a \<and> list_all isWhiteSpace b)
   \<and> (trim t \<noteq> [] \<longrightarrow> \<not> isWhiteSpace (hd (trim t)) \<and> \<not> isWhiteSpace (last (trim t)))
   \<and> (case fst (fetchRSSItems parseURL url w) of
         Inl err \<Rightarrow> True
       | Inr items \<Rightarrow> list_all (\<lambda>item. title item \<noteq> []) items)"
proof -
  have ne: "title (fetchRSSItems_item e') \<noteq> []" for e'
    by (simp add: title_item No_Title_nonempty split: option.splits)
  have "case fst (fetchRSSItems parseURL url w) of
         Inl err \<Rightarrow> True
       | Inr items \<Rightarrow> list_all (\<lambda>item. title item \<noteq> []) items"
    by (simp add: fst_fetchRSSItems list_all_iff ne split: sum.splits)
  then show ?thesis
    using ne [of e] title_item [of e] trim_decomp [of t] trim_ends [of t] by blast
qed

theorem normalized_title_nonempty_witness:
  "title (fetchRSSItems_item (onlyTitle (js ''  Test Item ''))) = js ''Test Item''
   \<and> title (fetchRSSItems_item (onlyTitle (js ''   ''))) = js ''No Title''
   \<and> title (fetchRSSItems_item ((onlyTitle [])\<lparr>raw_title := None\<rparr>)) = js ''No Title''
   \<and> trim (js ''  Test Item '') \<noteq> []
   \<and> \<not> isWhiteSpace (hd (trim (js ''  Test Item '')))
   \<and> \<not> isWhiteSpace (last (trim (js ''  Test Item '')))"
  using normalized_title_nonempty
          [where e = "onlyTitle (js ''  Test Item '')" and t = "js ''  Test Item ''"]
  by (simp add: fetchRSSItems_item_def onlyTitle_def or_default_def trim_def isWhiteSpace_def
      js_def)

section \<open>The creation loop\<close>

subsection \<open>Outside dry-run mode\<close>

lemma failure_log_reads [simp]:
  "created_of (failure_log x err) = []"
  "attempted_of (failure_log x err) = []"
  "attached_of (failure_log x err) = []"
  "failures_of (failure_log x err) = []"
  "error_logs_of (failure_log x err) = [err]"
  by (simp_all add: failure_log_def)

lemma creating_log_reads [simp]:
  "created_of (creating_log dryRun n) = []"
  "attempted_of (creating_log dryRun n) = []"
  "attached_of (creating_log dryRun n) = []"
  "failures_of (creating_log dryRun n) = []"
  "error_logs_of (creating_log dryRun n) = []"
  "isGatewayCall (creating_log dryRun n) = False"
  by (simp_all add: creating_log_def)

lemma processed_log_reads [simp]:
  "created_of (processed_log dryRun n) = []"
  "attempted_of (processed_log dryRun n) = []"
  "attached_of (processed_log dryRun n) = []"
  "failures_of (processed_log dryRun n) = []"
  "error_logs_of (processed_log dryRun n) = []"
  "isGatewayCall (processed_log dryRun n) = False"
  by (simp_all add: processed_log_def)

lemma body_live:
  "createNewIssues_body gh dflt False x st =
     (Inr (), st\<lparr>createdIssues :=
                  createdIssues st @ concat (map created_of (fst (item_events gh dflt x (gateway st)))),
                trace := trace st @ fst (item_events gh dflt x (gateway st)),
                gateway := snd (item_events gh dflt x (gateway st))\<rparr>)"
  by (simp add: createNewIssues_body_def createNewIssues_try_def item_events_def failure_log_def
      Let_def split: prod.splits sum.splits)

lemma loop_live:
  "createNewIssues_loop gh dflt False xs st =
     (Inr (), st\<lparr>createdIssues :=
                  createdIssues st @ concat (map created_of (fst (sequential_events gh dflt xs (gateway st)))),
                trace := trace st @ fst (sequential_events gh dflt xs (gateway st)),
                gateway := snd (sequential_events gh dflt xs (gateway st))\<rparr>)"
proof (induction xs arbitrary: st)
  case Nil
  show ?case by simp
next
  case (Cons x xs)
  show ?case
    by (simp add: body_live Cons.IH split: prod.splits)
qed

lemma createNewIssues_empty:
  "createNewIssues gh [] dflt dryRun s =
     (Inr [], [Logger INFO (js ''No new issues to create'') NoData], s)"
  by (simp add: createNewIssues_def)

lemma createNewIssues_live:
  assumes "newIssues \<noteq> []"
  shows "createNewIssues gh newIssues dflt False s =
     (Inr (concat (map created_of (fst (sequential_events gh dflt newIssues s)))),
      creating_log False (length newIssues) # fst (sequential_events gh dflt newIssues s)
        @ [processed_log False
             (length (concat (map created_of (fst (sequential_events gh dflt newIssues s)))))],
      snd (sequential_events gh dflt newIssues s))"
  using assms
  by (simp add: createNewIssues_def loop_live creating_log_def processed_log_def)

lemma fst_sequential_Cons:
  "fst (sequential_events gh dflt (x # xs) s) =
     fst (item_events gh dflt x s)
     @ fst (sequential_events gh dflt xs (snd (item_events gh dflt x s)))"
  by (simp split: prod.splits)

lemma attempted_item_events: "concat (map attempted_of (fst (item_events gh dflt x s))) = [x]"
  by (simp add: item_events_def split: prod.splits sum.splits)

lemma attempted_sequential:
  "concat (map attempted_of (fst (sequential_events gh dflt xs s))) = xs"
  by (induction xs arbitrary: s)
     (simp_all add: attempted_item_events fst_sequential_Cons del: sequential_events.simps(2))

lemma failures_item_events:
  "concat (map failures_of (fst (item_events gh dflt x s)))
   = concat (map error_logs_of (fst (item_events gh dflt x s)))"
  by (simp add: item_events_def split: prod.splits sum.splits)

lemma failures_sequential:
  "concat (map failures_of (fst (sequential_events gh dflt xs s)))
   = concat (map error_logs_of (fst (sequential_events gh dflt xs s)))"
  by (induction xs arbitrary: s)
     (simp_all add: failures_item_events fst_sequential_Cons del: sequential_events.simps(2))

lemma attached_item_events:
  "concat (map attached_of (fst (item_events gh dflt x s)))
   = map number (concat (map created_of (fst (item_events gh dflt x s))))"
  by (simp add: item_events_def split: prod.splits sum.splits)

lemma attached_sequential:
  "concat (map attached_of (fst (sequential_events gh dflt xs s)))
   = map number (concat (map created_of (fst (sequential_events gh dflt xs s))))"
  by (induction xs arbitrary: s)
     (simp_all add: attached_item_events fst_sequential_Cons del: sequential_events.simps(2))

subsection \<open>In dry-run mode\<close>

lemma body_dry:
  "createNewIssues_body gh dflt True x st = (Inr (), st\<lparr>trace := trace st @ dry_events x\<rparr>)"
  by (simp add: createNewIssues_body_def createNewIssues_try_def dry_events_def)

lemma loop_dry:
  "createNewIssues_loop gh dflt True xs st =
     (Inr (), st\<lparr>trace := trace st @ concat (map dry_events xs)\<rparr>)"
  by (induction xs arbitrary: st) (simp_all add: body_dry)

lemma createNewIssues_dry:
  assumes "newIssues \<noteq> []"
  shows "createNewIssues gh newIssues dflt True s =
     (Inr [],
      creating_log True (length newIssues) # concat (map dry_events newIssues)
        @ [processed_log True 0],
      s)"
  using assms
  by (simp add: createNewIssues_def loop_dry creating_log_def processed_log_def)

lemma dry_events_no_call: "filter isGatewayCall (concat (map dry_events xs)) = []"
  by (induction xs) (simp_all add: dry_events_def)

subsection \<open>Failure of a single item\<close>

text \<open>
  C1, as the specification has it: outside dry-run mode, when the gateway's create or
  attach call fails for an item, \<open>createNewIssues\<close> logs, goes on to the next item and
  never raises, and the returned sequence omits the failed item. The code keeps an
  issue whose attach call failed: the first of two items is created as issue 1, the
  attach call for issue 1 fails, and issue 1 is returned all the same.
\<close>

theorem createNewIssues_returns_issue_whose_attach_failed:
  "fst (createNewIssues (mockGithubService [] [1]) [testItem ''A'', testItem ''B'']
          testDefaults False 0)
     = Inr [mockIssue 1 (testItem ''A''), mockIssue 2 (testItem ''B'')]
   \<and> AddIssueToProject 1 (Some (js ''Todo'')) (Some (js ''v1.0'')) []
         (Inl (Error (js ''board error'')))
       \<in> set (fst (snd (createNewIssues (mockGithubService [] [1])
                          [testItem ''A'', testItem ''B''] testDefaults False 0)))"
  by (simp add: createNewIssues_live item_events_def mockGithubService_def mockIssue_def
      testDefaults_def numeral_2_eq_2)

text \<open>
  C1, amended: for every list of new items, every defaults and every gateway, outside
  dry-run mode \<open>createNewIssues\<close> never raises (its promise resolves); it passes every
  item to the gateway's create call, in the order of the list, whatever failed before;
  every failed create or attach call is logged as an error, in order, and nothing else
  is; and the returned sequence is exactly the issues of the successful create calls,
  in processing order. So an item whose create call failed is omitted, and an item
  whose create call succeeded is returned whether or not its attach call failed.
\<close>

theorem createNewIssues_isolates_failures:
  "case createNewIssues gh newIssues dflt False s of
     (result, evs, s') \<Rightarrow>
        result = Inr (concat (map created_of evs))
      \<and> concat (map attempted_of evs) = newIssues
      \<and> concat (map failures_of evs) = concat (map error_logs_of evs)"
proof (cases "newIssues = []")
  case True
  then show ?thesis by (simp add: createNewIssues_empty)
next
  case False
  then show ?thesis
    by (simp add: createNewIssues_live attempted_sequential failures_sequential)
qed

text \<open>
  The scenario of the specification: the first of two items fails creation, and the
  result is the one issue of the second item.
\<close>

theorem createNewIssues_isolates_failures_witness:
  "createNewIssues (mockGithubService [1] []) [testItem ''A'', testItem ''B''] testDefaults False 0
     = (Inr [mockIssue 2 (testItem ''B'')],
        [creating_log False 2,
         CreateIssue (testItem ''A'') [] (Inl (Error (js ''store error''))),
         failure_log (testItem ''A'') (Error (js ''store error'')),
         CreateIssue (testItem ''B'') [] (Inr (mockIssue 2 (testItem ''B''))),
         AddIssueToProject 2 (Some (js ''Todo'')) (Some (js ''v1.0'')) [] (Inr ()),
         Sleep 1000,
         processed_log False 1],
        2)"
  using createNewIssues_isolates_failures
          [where gh = "mockGithubService [1] []" and newIssues = "[testItem ''A'', testItem ''B'']"
             and dflt = testDefaults and s = 0]
  by (simp add: createNewIssues_live item_events_def mockGithubService_def mockIssue_def
      testDefaults_def numeral_2_eq_2)

subsection \<open>Order of the calls\<close>

text \<open>
  C4, as the specification has it: outside dry-run mode, for each item
  \<open>createNewIssues\<close> calls create, then attachToBoard with \<open>defaults.status\<close> and
  \<open>defaults.milestone\<close>, then pauses for a fixed delay before the next item. The code
  does so only while the calls succeed: here the create call of the first item fails,
  and the create call of the second item follows the error log at once, with no attach
  call and no pause for the first item.
\<close>

theorem createNewIssues_no_attach_no_pause_after_failed_create:
  "fst (snd (createNewIssues (mockGithubService [1] []) [testItem ''A'', testItem ''B'']
               testDefaults False 0))
     = [creating_log False 2,
        CreateIssue (testItem ''A'') [] (Inl (Error (js ''store error''))),
        failure_log (testItem ''A'') (Error (js ''store error'')),
        CreateIssue (testItem ''B'') [] (Inr (mockIssue 2 (testItem ''B''))),
        AddIssueToProject 2 (Some (js ''Todo'')) (Some (js ''v1.0'')) [] (Inr ()),
        Sleep 1000,
        processed_log False 1]"
  by (simp add: createNewIssues_live item_events_def mockGithubService_def mockIssue_def
      testDefaults_def numeral_2_eq_2)

text \<open>
  C4, amended: outside dry-run mode \<open>createNewIssues\<close> processes the items strictly one
  after the other, in feed order. For each item it calls create; if the create call
  succeeded it then calls attachToBoard with the number of the created issue,
  \<open>defaults.status\<close> and \<open>defaults.milestone\<close>; if the attach call succeeded too it then
  pauses for 1000 ms before the next item. After a failed create call there is no
  attach call for the item; a failure is logged and the next item follows. Every call
  starts from the state of the gateway that the call before it left, so nothing of an
  item happens before the create and attach attempt of the item before it is complete.
  Formally: between the first and the last log line the events are those of
  \<open>sequential_events\<close>, and the items passed to the create calls are the given items, in
  their order.
\<close>

theorem createNewIssues_sequential:
  assumes "newIssues \<noteq> []"
  shows "snd (createNewIssues gh newIssues dflt False s) =
           (creating_log False (length newIssues)
              # fst (sequential_events gh dflt newIssues s)
              @ [processed_log False
                   (length (concat (map created_of (fst (sequential_events gh dflt newIssues s)))))],
            snd (sequential_events gh dflt newIssues s))
         \<and> concat (map attempted_of (fst (sequential_events gh dflt newIssues s))) = newIssues"
  using assms by (simp add: createNewIssues_live attempted_sequential)

theorem createNewIssues_sequential_witness:
  "[testItem ''A'', testItem ''B''] \<noteq> []
   \<and> snd (createNewIssues (mockGithubService [] [2]) [testItem ''A'', testItem ''B'']
            testDefaults False 0)
     = ([creating_log False 2,
         CreateIssue (testItem ''A'') [] (Inr (mockIssue 1 (testItem ''A''))),
         AddIssueToProject 1 (Some (js ''Todo'')) (Some (js ''v1.0'')) [] (Inr ()),
         Sleep 1000,
         CreateIssue (testItem ''B'') [] (Inr (mockIssue 2 (testItem ''B''))),
         AddIssueToProject 2 (Some (js ''Todo'')) (Some (js ''v1.0'')) []
           (Inl (Error (js ''board error''))),
         failure_log (testItem ''B'') (Error (js ''board error'')),
         processed_log False 2],
        2)"
  using createNewIssues_sequential
          [where gh = "mockGithubService [] [2]" and newIssues = "[testItem ''A'', testItem ''B'']"
             and dflt = testDefaults and s = 0]
  by (simp add: item_events_def mockGithubService_def mockIssue_def testDefaults_def
      numeral_2_eq_2)

subsection \<open>The issue is recorded before the attach call\<close>

text \<open>
  C5: outside dry-run mode the created issue is appended to the result list right after
  a successful create call and before the attach call. For the loop body, at every
  state of the loop and for every gateway:
  \<^item> when the create call succeeds, the body leaves the list extended by exactly the
    created issue, whatever the attach call does; its events are the create call, the
    attach call with the number of the issue, \<open>defaults.status\<close> and
    \<open>defaults.milestone\<close>, and then the pause if the attach call succeeded and the error
    log if it failed;
  \<^item> when the attach call fails, the \<open>try\<close> block is left by the exception with the
    issue already in the list;
  \<^item> when the create call fails, the body logs the error and is done: the list is as
    before, there is no attach call, and the gateway is in the state the create call
    left.
  For the whole run, with the gateway's answers taken one after the other
  (\<open>sequential_events\<close>): the returned sequence is exactly the issues of the successful
  create calls, whatever their attach calls did, and the issue numbers passed to the
  attach calls are exactly the numbers of those issues, in order, so there is no attach
  call for an item whose create call failed.
\<close>

theorem createNewIssues_appends_before_attach:
  "(createIssue gh x (gateway st) = (Inr iss, evs, sa) \<longrightarrow>
      (case addIssueToProject gh (number iss) (status dflt) (milestone dflt) sa of
         (r, evs', sb) \<Rightarrow>
           createNewIssues_body gh dflt False x st =
             (Inr (), st\<lparr>createdIssues := createdIssues st @ [iss],
                        trace := trace st @
                          [CreateIssue x evs (Inr iss),
                           AddIssueToProject (number iss) (status dflt) (milestone dflt) evs' r,
                           (case r of Inl err \<Rightarrow> failure_log x err | Inr u \<Rightarrow> Sleep 1000)],
                        gateway := sb\<rparr>)))
   \<and> (createIssue gh x (gateway st) = (Inr iss, evs, sa) \<and>
      addIssueToProject gh (number iss) (status dflt) (milestone dflt) sa = (Inl err, evs', sb) \<longrightarrow>
        createNewIssues_try gh dflt False x st =
          (Inl err, st\<lparr>createdIssues := createdIssues st @ [iss],
                      trace := trace st @
                        [CreateIssue x evs (Inr iss),
                         AddIssueToProject (number iss) (status dflt) (milestone dflt) evs' (Inl err)],
                      gateway := sb\<rparr>)
      \<and> createNewIssues_body gh dflt False x st =
          (Inr (), st\<lparr>createdIssues := createdIssues st @ [iss],
                     trace := trace st @
                       [CreateIssue x evs (Inr iss),
                        AddIssueToProject (number iss) (status dflt) (milestone dflt) evs' (Inl err),
                        failure_log x err],
                     gateway := sb\<rparr>))
   \<and> (createIssue gh y (gateway st) = (Inl errc, evsc, sc) \<longrightarrow>
      createNewIssues_body gh dflt False y st =
        (Inr (), st\<lparr>trace := trace st @ [CreateIssue y evsc (Inl errc), failure_log y errc],
                   gateway := sc\<rparr>))
   \<and> (case createNewIssues gh newIssues dflt False s of
        (result, tr, s') \<Rightarrow>
           result = Inr (concat (map created_of (fst (sequential_events gh dflt newIssues s))))
         \<and> concat (map created_of tr)
             = concat (map created_of (fst (sequential_events gh dflt newIssues s)))
         \<and> concat (map attached_of tr)
             = map number (concat (map created_of (fst (sequential_events gh dflt newIssues s)))))"
proof -
  have run: "case createNewIssues gh newIssues dflt False s of
        (result, tr, s') \<Rightarrow>
           result = Inr (concat (map created_of (fst (sequential_events gh dflt newIssues s))))
         \<and> concat (map created_of tr)
             = concat (map created_of (fst (sequential_events gh dflt newIssues s)))
         \<and> concat (map attached_of tr)
             = map number (concat (map created_of (fst (sequential_events gh dflt newIssues s))))"
  proof (cases "newIssues = []")
    case True
    then show ?thesis by (simp add: createNewIssues_empty)
  next
    case False
    then show ?thesis
      by (simp add: createNewIssues_live attached_sequential)
  qed
  have ok: "createIssue gh x (gateway st) = (Inr iss, evs, sa) \<longrightarrow>
      (case addIssueToProject gh (number iss) (status dflt) (milestone dflt) sa of
         (r, evs', sb) \<Rightarrow>
           createNewIssues_body gh dflt False x st =
             (Inr (), st\<lparr>createdIssues := createdIssues st @ [iss],
                        trace := trace st @
                          [CreateIssue x evs (Inr iss),
                           AddIssueToProject (number iss) (status dflt) (milestone dflt) evs' r,
                           (case r of Inl err \<Rightarrow> failure_log x err | Inr u \<Rightarrow> Sleep 1000)],
                        gateway := sb\<rparr>))"
    by (simp add: body_live item_events_def split: prod.splits sum.splits)
  have thrown: "createIssue gh x (gateway st) = (Inr iss, evs, sa) \<and>
      addIssueToProject gh (number iss) (status dflt) (milestone dflt) sa = (Inl err, evs', sb) \<longrightarrow>
        createNewIssues_try gh dflt False x st =
          (Inl err, st\<lparr>createdIssues := createdIssues st @ [iss],
                      trace := trace st @
                        [CreateIssue x evs (Inr iss),
                         AddIssueToProject (number iss) (status dflt) (milestone dflt) evs' (Inl err)],
                      gateway := sb\<rparr>)"
    by (simp add: createNewIssues_try_def Let_def)
  show ?thesis
    using run ok thrown by (simp add: body_live item_events_def)
qed

text \<open>
  A gateway that never fails: both items are created, attached and returned. And a
  gateway whose attach call fails for issue 1 and whose second create call fails: issue
  1 is returned, the second item is not attached.
\<close>

theorem createNewIssues_appends_before_attach_witness:
  "createIssue (mockGithubService [] []) (testItem ''A'') 0
     = (Inr (mockIssue 1 (testItem ''A'')), [], 1)
   \<and> createNewIssues_body (mockGithubService [] []) testDefaults False (testItem ''A'')
       \<lparr>createdIssues = [], trace = [], gateway = 0\<rparr>
     = (Inr (), \<lparr>createdIssues = [mockIssue 1 (testItem ''A'')],
                 trace = [CreateIssue (testItem ''A'') [] (Inr (mockIssue 1 (testItem ''A''))),
                          AddIssueToProject 1 (Some (js ''Todo'')) (Some (js ''v1.0'')) [] (Inr ()),
                          Sleep 1000],
                 gateway = 1\<rparr>)
   \<and> createNewIssues (mockGithubService [] []) [testItem ''A'', testItem ''B''] testDefaults False 0
     = (Inr [mockIssue 1 (testItem ''A''), mockIssue 2 (testItem ''B'')],
        [creating_log False 2,
         CreateIssue (testItem ''A'') [] (Inr (mockIssue 1 (testItem ''A''))),
         AddIssueToProject 1 (Some (js ''Todo'')) (Some (js ''v1.0'')) [] (Inr ()),
         Sleep 1000,
         CreateIssue (testItem ''B'') [] (Inr (mockIssue 2 (testItem ''B''))),
         AddIssueToProject 2 (Some (js ''Todo'')) (Some (js ''v1.0'')) [] (Inr ()),
         Sleep 1000,
         processed_log False 2],
        2)
   \<and> createIssue (mockGithubService [2] [1]) (testItem ''A'') 0
     = (Inr (mockIssue 1 (testItem ''A'')), [], 1)
   \<and> addIssueToProject (mockGithubService [2] [1]) 1 (Some (js ''Todo'')) (Some (js ''v1.0'')) 1
     = (Inl (Error (js ''board error'')), [], 1)
   \<and> createNewIssues_try (mockGithubService [2] [1]) testDefaults False (testItem ''A'')
       \<lparr>createdIssues = [], trace = [], gateway = 0\<rparr>
     = (Inl (Error (js ''board error'')),
        \<lparr>createdIssues = [mockIssue 1 (testItem ''A'')],
          trace = [CreateIssue (testItem ''A'') [] (Inr (mockIssue 1 (testItem ''A''))),
                   AddIssueToProject 1 (Some (js ''Todo'')) (Some (js ''v1.0'')) []
                     (Inl (Error (js ''board error'')))],
          gateway = 1\<rparr>)
   \<and> createNewIssues_body (mockGithubService [2] [1]) testDefaults False (testItem ''A'')
       \<lparr>createdIssues = [], trace = [], gateway = 0\<rparr>
     = (Inr (), \<lparr>createdIssues = [mockIssue 1 (testItem ''A'')],
                 trace = [CreateIssue (testItem ''A'') [] (Inr (mockIssue 1 (testItem ''A''))),
                          AddIssueToProject 1 (Some (js ''Todo'')) (Some (js ''v1.0'')) []
                            (Inl (Error (js ''board error''))),
                          failure_log (testItem ''A'') (Error (js ''board error''))],
                 gateway = 1\<rparr>)
   \<and> createIssue (mockGithubService [2] [1]) (testItem ''B'') 1
     = (Inl (Error (js ''store error'')), [], 2)
   \<and> createNewIssues_body (mockGithubService [2] [1]) testDefaults False (testItem ''B'')
       \<lparr>createdIssues = [mockIssue 1 (testItem ''A'')], trace = [], gateway = 1\<rparr>
     = (Inr (), \<lparr>createdIssues = [mockIssue 1 (testItem ''A'')],
                 trace = [CreateIssue (testItem ''B'') [] (Inl (Error (js ''store error''))),
                          failure_log (testItem ''B'') (Error (js ''store error''))],
                 gateway = 2\<rparr>)
   \<and> fst (createNewIssues (mockGithubService [2] [1]) [testItem ''A'', testItem ''B'']
            testDefaults False 0)
     = Inr [mockIssue 1 (testItem ''A'')]"
  using createNewIssues_appends_before_attach
          [where gh = "mockGithubService [] []" and x = "testItem ''A''"
             and st = "\<lparr>createdIssues = [], trace = [], gateway = 0\<rparr>"
             and iss = "mockIssue 1 (testItem ''A'')" and evs = "[]" and sa = 1
             and dflt = testDefaults and newIssues = "[testItem ''A'', testItem ''B'']" and s = 0]
        createNewIssues_appends_before_attach
          [where gh = "mockGithubService [2] [1]" and x = "testItem ''A''"
             and st = "\<lparr>createdIssues = [], trace = [], gateway = 0\<rparr>"
             and iss = "mockIssue 1 (testItem ''A'')" and evs = "[]" and sa = 1
             and dflt = testDefaults and err = "Error (js ''board error'')" and evs' = "[]"
             and sb = 1 and newIssues = "[testItem ''A'', testItem ''B'']" and s = 0]
        createNewIssues_appends_before_attach
          [where gh = "mockGithubService [2] [1]" and y = "testItem ''B''"
             and st = "\<lparr>createdIssues = [mockIssue 1 (testItem ''A'')], trace = [], gateway = 1\<rparr>"
             and errc = "Error (js ''store error'')" and evsc = "[]" and sc = 2
             and dflt = testDefaults and newIssues = "[]"]
  by (simp add: createNewIssues_live createNewIssues_try_def item_events_def
      mockGithubService_def mockIssue_def testDefaults_def numeral_2_eq_2)

subsection \<open>Dry run and empty input\<close>

text \<open>
  C3: for every list of items and every defaults, \<open>createNewIssues\<close> with
  \<open>dryRun = true\<close> makes no call of the gateway (neither create nor attach: no such
  event, and the gateway's state is as before) and returns an empty sequence; and for
  an empty list with \<open>dryRun = false\<close> it returns an empty sequence at once, with one
  log line and no call of the gateway.
\<close>

theorem createNewIssues_dry_run_calls_nothing:
  "fst (createNewIssues gh newIssues dflt True s) = Inr []
   \<and> filter isGatewayCall (fst (snd (createNewIssues gh newIssues dflt True s))) = []
   \<and> snd (snd (createNewIssues gh newIssues dflt True s)) = s
   \<and> createNewIssues gh [] dflt False s
       = (Inr [], [Logger INFO (js ''No new issues to create'') NoData], s)"
proof (cases "newIssues = []")
  case True
  then show ?thesis by (simp add: createNewIssues_empty)
next
  case False
  then show ?thesis
    by (simp add: createNewIssues_dry createNewIssues_empty dry_events_no_call)
qed

theorem createNewIssues_dry_run_calls_nothing_witness:
  "createNewIssues (mockGithubService [] []) [testItem ''A''] testDefaults True 0
     = (Inr [], creating_log True 1 # dry_events (testItem ''A'') @ [processed_log True 0], 0)"
  using createNewIssues_dry_run_calls_nothing
          [where gh = "mockGithubService [] []" and newIssues = "[testItem ''A'']"
             and dflt = testDefaults and s = 0]
  by (simp add: createNewIssues_dry)

section \<open>Attaching an issue to the project\<close>

lemma statusUpdate_reads:
  "concat (map status_updates_of (statusUpdate p i a)) =
     (case a of None \<Rightarrow> [] | Some v \<Rightarrow> if v \<noteq> [] then [v] else [])"
  "concat (map milestone_updates_of (statusUpdate p i a)) = []"
  by (auto simp add: statusUpdate_def split: option.splits)

lemma milestoneUpdate_reads:
  "concat (map milestone_updates_of (milestoneUpdate p i a)) =
     (case a of None \<Rightarrow> [] | Some v \<Rightarrow> if v \<noteq> [] then [v] else [])"
  "concat (map status_updates_of (milestoneUpdate p i a)) = []"
  by (auto simp add: milestoneUpdate_def split: option.splits)

lemma getProject_reads:
  "concat (map status_updates_of (fst (snd (getProject this w)))) = []"
  "concat (map milestone_updates_of (fst (snd (getProject this w)))) = []"
  by (simp_all add: getProject_def split: prod.splits)

lemma addItemToProject_reads:
  "concat (map status_updates_of (fst (snd (addItemToProject this p n w)))) = []"
  "concat (map milestone_updates_of (fst (snd (addItemToProject this p n w)))) = []"
  by (simp_all add: addItemToProject_def split: prod.splits sum.splits)

lemma addIssueToProject_try_reads:
  "case addIssueToProject_try this n statusArg milestoneArg w of
     (result, evs, w') \<Rightarrow>
        concat (map status_updates_of evs) =
          (case statusArg of None \<Rightarrow> []
           | Some v \<Rightarrow> if v \<noteq> [] \<and> result = Inr () then [v] else [])
      \<and> concat (map milestone_updates_of evs) =
          (case milestoneArg of None \<Rightarrow> []
           | Some v \<Rightarrow> if v \<noteq> [] \<and> result = Inr () then [v] else [])"
proof -
  obtain ra ea wa where g: "getProject this w = (ra, ea, wa)"
    by (cases "getProject this w") auto
  have ea: "concat (map status_updates_of ea) = []" "concat (map milestone_updates_of ea) = []"
    using getProject_reads [where this = this and w = w] g by simp_all
  show ?thesis
  proof (cases ra)
    case (Inl err)
    with g ea show ?thesis
      by (simp add: addIssueToProject_try_def split: option.splits)
  next
    case (Inr proj)
    obtain rb eb wb where a: "addItemToProject this (project_id proj) n wa = (rb, eb, wb)"
      by (cases "addItemToProject this (project_id proj) n wa") auto
    have eb: "concat (map status_updates_of eb) = []" "concat (map milestone_updates_of eb) = []"
      using addItemToProject_reads [where this = this and p = "project_id proj" and n = n and w = wa] a
      by simp_all
    show ?thesis
    proof (cases rb)
      case (Inl err)
      with g Inr a ea eb show ?thesis
        by (simp add: addIssueToProject_try_def split: option.splits)
    next
      case (Inr projectItem)
      with g \<open>ra = Inr proj\<close> a ea eb show ?thesis
        by (simp add: addIssueToProject_try_def statusUpdate_reads milestoneUpdate_reads
            split: option.splits)
    qed
  qed
qed

text \<open>
  C9: for every issue number and every pair of status and milestone,
  \<open>addIssueToProject\<close> applies the status update only if the status is not null, and
  the milestone update only if the milestone is not null; a null status or milestone
  means that the update is skipped. In full: the status update is made, once and with
  the value passed, exactly when the value is a non-empty string and the project and
  the project item were obtained (so that the method succeeds); the same holds for the
  milestone.
\<close>

theorem addIssueToProject_updates_only_given_values:
  "case GitHubService_addIssueToProject this issueNumber statusArg milestoneArg w of
     (result, evs, w') \<Rightarrow>
        concat (map status_updates_of evs) =
          (case statusArg of None \<Rightarrow> []
           | Some v \<Rightarrow> if v \<noteq> [] \<and> result = Inr () then [v] else [])
      \<and> concat (map milestone_updates_of evs) =
          (case milestoneArg of None \<Rightarrow> []
           | Some v \<Rightarrow> if v \<noteq> [] \<and> result = Inr () then [v] else [])
      \<and> (statusArg = None \<longrightarrow> concat (map status_updates_of evs) = [])
      \<and> (milestoneArg = None \<longrightarrow> concat (map milestone_updates_of evs) = [])"
proof -
  obtain r e wa where t: "addIssueToProject_try this issueNumber statusArg milestoneArg w = (r, e, wa)"
    by (cases "addIssueToProject_try this issueNumber statusArg milestoneArg w") auto
  show ?thesis
    using addIssueToProject_try_reads
            [where this = this and n = issueNumber and statusArg = statusArg
               and milestoneArg = milestoneArg and w = w] t
    by (cases r) (auto simp add: GitHubService_addIssueToProject_def split: option.splits)
qed

theorem addIssueToProject_updates_only_given_values_witness:
  "fst (snd (GitHubService_addIssueToProject (mockService True) 7 (Some (js ''Todo'')) None 0))
     = [Logger INFO (js ''Adding issue #7 to project board'') NoData,
        Request (GraphqlGetProject (Some (js ''test-owner'')) (Some 1)),
        Request (IssuesGet (Some (js ''test-owner'')) (Some (js ''test-repo'')) 7),
        Request (GraphqlAddItem (js ''P_1'') (js ''I_1'')),
        UpdateProjectItemStatus (js ''P_1'') (js ''PI_1'') (js ''Todo'')
          [Logger INFO (js ''Updating project item status to: Todo'') NoData],
        Logger INFO (js ''Successfully added issue #7 to project board'') NoData]"
  using addIssueToProject_updates_only_given_values
          [where this = "mockService True" and issueNumber = 7
             and statusArg = "Some (js ''Todo'')" and milestoneArg = None and w = 0]
  by (simp add: GitHubService_addIssueToProject_def addIssueToProject_try_def getProject_def
      addItemToProject_def statusUpdate_def milestoneUpdate_def updateProjectItemStatus_def
      mockService_def mockOctokit_def decimal.simps js_def digit_def)

section \<open>Loading the configuration\<close>

lemma truthy_iff: "truthy v \<longleftrightarrow> v \<noteq> None \<and> v \<noteq> Some []"
  by (cases v) (simp_all add: truthy_def)

lemma missing_incompleteEnv:
  "missing incompleteEnv = [js ''GITHUB_OWNER'', js ''GITHUB_REPO'', js ''MANTIS_RSS_URL'']"
  by (simp add: missing_def incompleteEnv_def required_def truthy_def js_def)

lemma missing_testEnv: "missing testEnv = []"
  by (simp add: missing_def testEnv_def required_def truthy_def js_def)

text \<open>
  C10: if any of the required configuration values (\<open>GITHUB_TOKEN\<close>, \<open>GITHUB_OWNER\<close>,
  \<open>GITHUB_REPO\<close>, \<open>PROJECT_NUMBER\<close>, \<open>MANTIS_RSS_URL\<close>) is missing from the environment,
  loading the configuration fails with an error whose message lists the names of all
  the missing variables, and the script ends with that error at once: nothing is
  logged, no request is made, the world is as before. If none is missing, the
  construction succeeds. A value is missing when the test \<open>!process.env[key]\<close> holds:
  the variable is not set, or it is set to the empty string.
\<close>

theorem config_fails_on_missing_values:
  "(missing process_env \<noteq> [] \<longrightarrow>
      Config_new parseInt process_env process_argv =
        Inl (Error (js ''Missing required environment variables: ''
                    @ join (js '', '') (missing process_env)))
    \<and> main parseInt parseURL Octokit process_env process_argv w =
        (Uncaught (Error (js ''Missing required environment variables: ''
                          @ join (js '', '') (missing process_env))), [], w))
   \<and> (missing process_env = [] \<longrightarrow>
        (\<exists>cfg. Config_new parseInt process_env process_argv = Inr cfg))
   \<and> set (missing process_env)
       = {key \<in> set required. process_env key = None \<or> process_env key = Some []}"
proof -
  have "set (missing process_env)
          = {key \<in> set required. process_env key = None \<or> process_env key = Some []}"
    by (auto simp add: missing_def truthy_iff)
  then show ?thesis
    by (simp add: main_def Config_new_def validateRequiredEnvVars_def)
qed

theorem config_fails_on_missing_values_witness:
  "missing incompleteEnv \<noteq> []
   \<and> main (\<lambda>v. Some 1) mockParseURL (\<lambda>auth. mockOctokit True) incompleteEnv [] 0
       = (Uncaught (Error (js ''Missing required environment variables: GITHUB_OWNER, GITHUB_REPO, MANTIS_RSS_URL'')),
          [], 0)
   \<and> missing testEnv = []
   \<and> Config_new (\<lambda>v. Some 1) testEnv [] =
       Inr \<lparr>github_token = Some (js ''test-token''),
            github_owner = Some (js ''test-owner''),
            github_repo = Some (js ''test-repo''),
            github_projectNumber = Some 1,
            rss_url = Some (js ''https://example.com/rss.xml''),
            config_defaults = \<lparr>status = Some (js ''Todo''), milestone = None\<rparr>,
            config_dryRun = True\<rparr>"
proof -
  have a: "missing incompleteEnv \<noteq> []"
    by (simp add: missing_incompleteEnv)
  have b: "main (\<lambda>v. Some 1) mockParseURL (\<lambda>auth. mockOctokit True) incompleteEnv [] 0
       = (Uncaught (Error (js ''Missing required environment variables: GITHUB_OWNER, GITHUB_REPO, MANTIS_RSS_URL'')),
          [], 0)"
    using config_fails_on_missing_values
            [where process_env = incompleteEnv and parseInt = "\<lambda>v. Some 1"
               and parseURL = mockParseURL and Octokit = "\<lambda>auth. mockOctokit True"
               and process_argv = "[]" and w = 0] a
    by (simp add: missing_incompleteEnv js_def)
  have c: "missing testEnv = []"
    by (rule missing_testEnv)
  have d: "Config_new (\<lambda>v. Some 1) testEnv [] =
       Inr \<lparr>github_token = Some (js ''test-token''),
            github_owner = Some (js ''test-owner''),
            github_repo = Some (js ''test-repo''),
            github_projectNumber = Some 1,
            rss_url = Some (js ''https://example.com/rss.xml''),
            config_defaults = \<lparr>status = Some (js ''Todo''), milestone = None\<rparr>,
            config_dryRun = True\<rparr>"
    using config_fails_on_missing_values
            [where process_env = testEnv and parseInt = "\<lambda>v. Some 1" and process_argv = "[]"] c
    by (simp add: Config_new_def validateRequiredEnvVars_def)
       (simp add: testEnv_def or_default_def js_or_def truthy_def js_def)
  from a b c d show ?thesis by simp
qed

end
